theory Spec2Isabelle
  imports Complex_Main
begin

section \<open>Python values used by \<open>run_capsule.py\<close>\<close>

text \<open>
  The job dispatcher is one Python script, \<open>src/code/run_capsule.py\<close>. Its \<open>__main__\<close>
  block resolves a configuration, walks the data folder, optionally subsamples the
  recording folders found, and writes one job descriptor per recording folder that has a
  \<open>sorting.zarr\<close> sibling.

  Exceptions are values of \<open>py_error\<close>; a computation that may raise returns
  \<open>py_error + 'a\<close>, with \<open>Inl\<close> for the exception.
\<close>

datatype py_error =
    ValueError string
  | TypeError
  | AttributeError
  | JSONDecodeError
  | OverflowError
  | IndexError
  | AssertionError
  | LoadError

text \<open>
  A Python \<open>float\<close>. The finite values are modelled as exact rationals: every finite
  binary64 value is a rational number, and the rounding of binary64 arithmetic is not
  modelled. Infinities and NaN are kept, because \<open>float('inf')\<close> is accepted by
  \<open>float\<close> and rejected by \<open>int\<close>.
\<close>

datatype pyfloat = Fin rat | PosInf | NegInf | NaN

text \<open>What \<open>json.loads\<close> returns; a JSON object is the list of its items.\<close>

datatype json =
    JNull
  | JBool bool
  | JInt int
  | JFloat pyfloat
  | JStr string
  | JArr "json list"
  | JObj "(string \<times> json) list"

type_synonym path = "string list"

text \<open>
  A path is the list of its components: \<open>Path("../data")\<close> is \<open>[''..'', ''data'']\<close>, and
  \<open>p / d\<close> appends the component \<open>d\<close>.
\<close>

definition data_folder :: path where
  "data_folder = [''..'', ''data'']"

definition results_folder :: path where
  "results_folder = [''..'', ''results'']"

definition recordings_folder :: path where
  "recordings_folder = results_folder @ [''recordings'']"

definition flattened_folder :: path where
  "flattened_folder = results_folder @ [''flattened'']"

definition parent :: "path \<Rightarrow> path" where
  "parent p = butlast p"

definition name :: "path \<Rightarrow> string" where
  \<comment> \<open>\<open>Path.name\<close>: the last component, the empty string for \<open>Path('.')\<close>.\<close>
  "name p = (if p = [] then [] else last p)"

definition parents1 :: "path \<Rightarrow> py_error + path" where
  \<comment> \<open>\<open>p.parents[1]\<close>: a relative path of \<open>n\<close> components has \<open>n\<close> parents, the last
      one being \<open>Path('.')\<close>; the index 1 is out of range below two components.\<close>
  "parents1 p = (if length p < 2 then Inl IndexError else Inr (butlast (butlast p)))"

section \<open>The domain library's objects\<close>

text \<open>
  Modelled from the spec: the domain library (\<open>spikeinterface\<close>) is not part of the
  repository's sources; the spec treats it as a data source exposing load, frame-slice and
  attribute accessors. A recording is the structure \<open>to_dict(recursive=True)\<close> describes:
  a loaded folder with its sampling frequency (Hz), number of samples and number of
  channels, or a frame slice of a parent recording. A frame slice keeps the parent's
  sampling frequency and channels and has \<open>end_frame - start_frame\<close> samples; the library
  refuses (by assertion) a range that is not \<open>0 \<le> start < end \<le> num_samples\<close> of the
  parent. The total duration is the number of samples divided by the sampling frequency
  (120 s for 3600000 samples at 30000 Hz, as in the spec's example).
\<close>

datatype recording =
    ZarrRecording path rat int nat
  | FrameSliceRecording recording int int

datatype sorting =
    ZarrSorting path
  | FrameSliceSorting sorting int int

fun sampling_frequency :: "recording \<Rightarrow> rat" where
  "sampling_frequency (ZarrRecording p fs n ch) = fs"
| "sampling_frequency (FrameSliceRecording r s e) = sampling_frequency r"

fun get_num_samples :: "recording \<Rightarrow> int" where
  "get_num_samples (ZarrRecording p fs n ch) = n"
| "get_num_samples (FrameSliceRecording r s e) = e - s"

fun get_num_channels :: "recording \<Rightarrow> nat" where
  "get_num_channels (ZarrRecording p fs n ch) = ch"
| "get_num_channels (FrameSliceRecording r s e) = get_num_channels r"

definition get_total_duration :: "recording \<Rightarrow> rat" where
  "get_total_duration r = of_int (get_num_samples r) / sampling_frequency r"

definition frame_slice :: "recording \<Rightarrow> int \<Rightarrow> int \<Rightarrow> py_error + recording" where
  "frame_slice r start_frame end_frame =
     (if 0 \<le> start_frame \<and> start_frame < end_frame \<and> end_frame \<le> get_num_samples r
      then Inr (FrameSliceRecording r start_frame end_frame)
      else Inl AssertionError)"

definition sorting_frame_slice :: "sorting \<Rightarrow> int \<Rightarrow> int \<Rightarrow> py_error + sorting" where
  "sorting_frame_slice g start_frame end_frame =
     (if 0 \<le> start_frame \<and> start_frame < end_frame
      then Inr (FrameSliceSorting g start_frame end_frame)
      else Inl AssertionError)"

section \<open>Python and numpy arithmetic\<close>

definition fmul :: "pyfloat \<Rightarrow> rat \<Rightarrow> pyfloat" where
  \<comment> \<open>\<open>DEBUG_DURATION * recording.sampling_frequency\<close>, the frequency being finite.\<close>
  "fmul d fs =
     (case d of
        Fin x \<Rightarrow> Fin (x * fs)
      | NaN \<Rightarrow> NaN
      | PosInf \<Rightarrow> (if fs = 0 then NaN else if 0 < fs then PosInf else NegInf)
      | NegInf \<Rightarrow> (if fs = 0 then NaN else if 0 < fs then NegInf else PosInf))"

definition py_int :: "pyfloat \<Rightarrow> py_error + int" where
  \<comment> \<open>\<open>int(x)\<close> of a float: truncation towards zero; it raises on infinities and NaN.\<close>
  "py_int x =
     (case x of
        Fin q \<Rightarrow> Inr (if 0 \<le> q then \<lfloor>q\<rfloor> else \<lceil>q\<rceil>)
      | NaN \<Rightarrow> Inl (ValueError ''cannot convert float NaN to integer'')
      | _ \<Rightarrow> Inl OverflowError)"

definition round_half_even :: "rat \<Rightarrow> int" where
  "round_half_even y =
     (let f = \<lfloor>y\<rfloor>; r = y - of_int f
      in if r < 1 / 2 then f
         else if 1 / 2 < r then f + 1
         else if even f then f else f + 1)"

definition np_round2 :: "rat \<Rightarrow> rat" where
  \<comment> \<open>\<open>np.round(x, 2)\<close>: scale by 100, round half to even, scale back.\<close>
  "np_round2 x = of_int (round_half_even (x * 100)) / 100"

definition truthy :: "json \<Rightarrow> bool" where
  \<comment> \<open>The truth value Python's \<open>if\<close> gives a value.\<close>
  "truthy v =
     (case v of
        JNull \<Rightarrow> False
      | JBool b \<Rightarrow> b
      | JInt n \<Rightarrow> n \<noteq> 0
      | JFloat x \<Rightarrow> x \<noteq> Fin 0
      | JStr s \<Rightarrow> s \<noteq> []
      | JArr xs \<Rightarrow> xs \<noteq> []
      | JObj kvs \<Rightarrow> kvs \<noteq> [])"

definition py_lt_len :: "json \<Rightarrow> nat \<Rightarrow> py_error + bool" where
  \<comment> \<open>\<open>v < len(zarr_folders)\<close>: numbers compare, \<open>bool\<close> is an \<open>int\<close>, anything else
      raises \<open>TypeError\<close>.\<close>
  "py_lt_len v n =
     (case v of
        JInt k \<Rightarrow> Inr (k < int n)
      | JBool b \<Rightarrow> Inr ((if b then 1 else 0) < n)
      | JFloat x \<Rightarrow>
          Inr (case x of Fin q \<Rightarrow> q < of_nat n | NegInf \<Rightarrow> True | _ \<Rightarrow> False)
      | _ \<Rightarrow> Inl TypeError)"

definition lower_char :: "char \<Rightarrow> char" where
  "lower_char c =
     (let n = (of_char c :: nat)
      in if 65 \<le> n \<and> n \<le> 90 then char_of (n + 32) else c)"

definition lower :: "string \<Rightarrow> string" where
  \<comment> \<open>\<open>str.lower\<close> on ASCII.\<close>
  "lower s = map lower_char s"

definition dict_get :: "json \<Rightarrow> string \<Rightarrow> json \<Rightarrow> py_error + json" where
  \<comment> \<open>\<open>params.get(key, default)\<close>: only a dict has \<open>get\<close>.\<close>
  "dict_get params key dflt =
     (case params of
        JObj kvs \<Rightarrow> Inr (case map_of kvs key of Some v \<Rightarrow> v | None \<Rightarrow> dflt)
      | _ \<Rightarrow> Inl AttributeError)"

definition py_or :: "string option \<Rightarrow> string option \<Rightarrow> string option" where
  \<comment> \<open>\<open>a or b\<close> on optional strings: \<open>None\<close> and the empty string are false.\<close>
  "py_or a b = (case a of Some s \<Rightarrow> (if s \<noteq> [] then Some s else b) | None \<Rightarrow> b)"

section \<open>The job descriptor\<close>

text \<open>
  \<open>job_dict\<close> of lines 148 to 161. \<open>recording_dict\<close> is
  \<open>recording.to_dict(recursive=True, include_annotations=False, relative_to=data_folder)\<close>:
  the structure of the recording, which the datatype \<open>recording\<close> is.
\<close>

record job =
  session_name :: string
  recording_name :: string
  recording_dict :: recording
  duration :: rat
  input_folder :: string
  debug :: json

section \<open>The world outside the script\<close>

text \<open>
  What the script reads from its environment and from the libraries it calls:
  the standard library's parsers, the file system under the data folder, the domain
  library's loader and serializers, and numpy's generator. \<open>rng_choice w seed xs size\<close> is
  \<open>np.random.default_rng(seed=seed).choice(xs, size=size, replace=False)\<close>;
  \<open>job_json w j\<close> is the text \<open>json.dump(j, f, indent=4, cls=SIJsonEncoder)\<close> writes and
  \<open>sorting_json w g\<close> the text \<open>g.dump_to_json(file, relative_to=data_folder)\<close> writes.
  \<open>os_walk w\<close> lists the \<open>(root, dirs)\<close> of \<open>os.walk(data_folder, followlinks=True)\<close> in
  the order of the traversal.
\<close>

record world =
  json_loads :: "string \<Rightarrow> json option"
  is_file :: "string \<Rightarrow> bool"
  json_load_file :: "string \<Rightarrow> json option"
  str_to_float :: "string \<Rightarrow> pyfloat option"
  str_to_int :: "string \<Rightarrow> int option"
  os_walk :: "(path \<times> string list) list"
  is_dir :: "path \<Rightarrow> bool"
  load_recording :: "path \<Rightarrow> py_error + recording"
  load_sorting :: "path \<Rightarrow> py_error + sorting"
  rng_choice :: "nat \<Rightarrow> path list \<Rightarrow> json \<Rightarrow> py_error + path list"
  job_json :: "job \<Rightarrow> string"
  sorting_json :: "sorting \<Rightarrow> string"

record args =
  arg_debug :: bool
  arg_static_debug :: "string option"
  arg_debug_duration :: "string option"
  arg_static_debug_duration :: "string option"
  arg_max_recordings :: "string option"
  arg_static_max_recordings :: "string option"
  arg_params :: "string option"

text \<open>
  \<open>arg_debug_duration = None\<close> stands for the option not being given: argparse then
  supplies the default, the integer 30.
\<close>

record config =
  DEBUG :: json
  DEBUG_DURATION :: pyfloat
  MAX_RECORDINGS :: json

section \<open>Resolving the configuration (lines 61 to 90)\<close>

definition py_float :: "world \<Rightarrow> json \<Rightarrow> py_error + pyfloat" where
  \<comment> \<open>\<open>float(v)\<close>\<close>
  "py_float w v =
     (case v of
        JNull \<Rightarrow> Inl TypeError
      | JBool b \<Rightarrow> Inr (Fin (if b then 1 else 0))
      | JInt n \<Rightarrow> Inr (Fin (of_int n))
      | JFloat x \<Rightarrow> Inr x
      | JStr s \<Rightarrow>
          (case str_to_float w s of
             Some x \<Rightarrow> Inr x
           | None \<Rightarrow> Inl (ValueError (''could not convert string to float: '' @ s)))
      | _ \<Rightarrow> Inl TypeError)"

definition load_params :: "world \<Rightarrow> string \<Rightarrow> py_error + json" where
  "load_params w PARAMS =
     (case json_loads w PARAMS of
        Some params \<Rightarrow> Inr params
      | None \<Rightarrow>
          (if is_file w PARAMS
           then (case json_load_file w PARAMS of
                   Some params \<Rightarrow> Inr params
                 | None \<Rightarrow> Inl JSONDecodeError)
           else Inl (ValueError (''Invalid parameters: '' @ PARAMS @
                                 '' is not a valid JSON string or file path''))))"

definition config_from_params :: "world \<Rightarrow> json \<Rightarrow> py_error + config" where
  "config_from_params w params =
     (case dict_get params ''debug'' (JBool False) of
        Inl e \<Rightarrow> Inl e
      | Inr dbg \<Rightarrow>
          (case dict_get params ''debug_duration'' JNull of
             Inl e \<Rightarrow> Inl e
           | Inr dd \<Rightarrow>
               (case py_float w dd of
                  Inl e \<Rightarrow> Inl e
                | Inr d \<Rightarrow>
                    (case dict_get params ''max_recordings'' JNull of
                       Inl e \<Rightarrow> Inl e
                     | Inr m \<Rightarrow>
                         Inr \<lparr>DEBUG = dbg, DEBUG_DURATION = d, MAX_RECORDINGS = m\<rparr>))))"

definition config_from_args :: "world \<Rightarrow> args \<Rightarrow> py_error + config" where
  "config_from_args w a =
     (let dbg = (case arg_static_debug a of
                   Some s \<Rightarrow> (if s \<noteq> [] then lower s = ''true'' else arg_debug a)
                 | None \<Rightarrow> arg_debug a);
          dd = (case py_or (arg_static_debug_duration a) (arg_debug_duration a) of
                  Some s \<Rightarrow> JStr s
                | None \<Rightarrow> JInt 30)
      in case py_float w dd of
           Inl e \<Rightarrow> Inl e
         | Inr d \<Rightarrow>
             (case py_or (arg_static_max_recordings a) (arg_max_recordings a) of
                None \<Rightarrow> Inr \<lparr>DEBUG = JBool dbg, DEBUG_DURATION = d, MAX_RECORDINGS = JNull\<rparr>
              | Some s \<Rightarrow>
                  (case str_to_int w s of
                     None \<Rightarrow> Inl (ValueError (''invalid literal for int() with base 10: '' @ s))
                   | Some k \<Rightarrow>
                       Inr \<lparr>DEBUG = JBool dbg, DEBUG_DURATION = d,
                            MAX_RECORDINGS = (if k = - 1 then JNull else JInt k)\<rparr>)))"

definition resolve_config :: "world \<Rightarrow> args \<Rightarrow> py_error + config" where
  "resolve_config w a =
     (case arg_params a of
        Some PARAMS \<Rightarrow>
          (case load_params w PARAMS of
             Inl e \<Rightarrow> Inl e
           | Inr params \<Rightarrow> config_from_params w params)
      | None \<Rightarrow> config_from_args w a)"

section \<open>Discovery and subsampling (lines 107 to 120)\<close>

definition discover :: "world \<Rightarrow> path list" where
  "discover w =
     concat (map (\<lambda>(root, dirs). map (\<lambda>d. root @ [d]) (filter (\<lambda>d. d = ''recording.zarr'') dirs))
                 (os_walk w))"

datatype log_event =
    LogRunning config
  | LogLooking path
  | LogFound nat
  | LogToBeProcessed
  | LogSampling json
  | LogRecording string rat nat
  | LogGenerated nat

text \<open>
  The state of a run: the files it has written so far with their contents, the
  directories it has made, the counter \<open>i\<close> of line 114, and what it has logged.
\<close>

record state =
  files :: "path \<rightharpoonup> string"
  made_dirs :: "path list"
  counter :: nat
  logged :: "log_event list"

definition initial_state :: state where
  "initial_state = \<lparr>files = Map.empty, made_dirs = [], counter = 0, logged = []\<rparr>"

definition needs_sampling :: "json \<Rightarrow> nat \<Rightarrow> py_error + bool" where
  \<comment> \<open>\<open>MAX_RECORDINGS is not None and MAX_RECORDINGS < len(zarr_folders)\<close>\<close>
  "needs_sampling m n = (if m = JNull then Inr False else py_lt_len m n)"

definition subsample :: "world \<Rightarrow> json \<Rightarrow> path list \<Rightarrow> state \<Rightarrow> state \<times> (py_error + path list)" where
  \<comment> \<open>Lines 117 to 120; the sampling is logged before the generator is called.\<close>
  "subsample w m zarr_folders st =
     (case needs_sampling m (length zarr_folders) of
        Inl e \<Rightarrow> (st, Inl e)
      | Inr False \<Rightarrow> (st, Inr zarr_folders)
      | Inr True \<Rightarrow>
          (st\<lparr>logged := logged st @ [LogSampling m]\<rparr>, rng_choice w 0 zarr_folders m))"

section \<open>Processing one recording folder (lines 122 to 168)\<close>

definition end_frame :: "pyfloat \<Rightarrow> recording \<Rightarrow> py_error + int" where
  \<comment> \<open>\<open>min(int(DEBUG_DURATION * recording.sampling_frequency), recording.get_num_samples())\<close>\<close>
  "end_frame d r =
     (case py_int (fmul d (sampling_frequency r)) of
        Inl e \<Rightarrow> Inl e
      | Inr k \<Rightarrow> Inr (min k (get_num_samples r)))"

definition prepare :: "config \<Rightarrow> recording \<Rightarrow> sorting \<Rightarrow> py_error + (recording \<times> rat \<times> sorting)" where
  \<comment> \<open>Lines 131 to 146: the recording, the duration and the sorting the job is made of.
      The second end frame is computed from the recording already sliced.\<close>
  "prepare c r g =
     (if truthy (DEBUG c) then
        (case end_frame (DEBUG_DURATION c) r of
           Inl e \<Rightarrow> Inl e
         | Inr e1 \<Rightarrow>
             (case frame_slice r 0 e1 of
                Inl e \<Rightarrow> Inl e
              | Inr r' \<Rightarrow>
                  (case end_frame (DEBUG_DURATION c) r' of
                     Inl e \<Rightarrow> Inl e
                   | Inr e2 \<Rightarrow>
                       (case sorting_frame_slice g 0 e2 of
                          Inl e \<Rightarrow> Inl e
                        | Inr g' \<Rightarrow> Inr (r', np_round2 (get_total_duration r'), g')))))
      else Inr (r, np_round2 (get_total_duration r), g))"

definition full_name :: "string \<Rightarrow> string \<Rightarrow> string" where
  \<comment> \<open>Line 160: \<open>f"{job_dict['session_name']}__{job_dict['recording_name']}"\<close>\<close>
  "full_name session case_name = session @ ''__'' @ case_name"

definition job_file :: "string \<Rightarrow> string" where
  "job_file n = ''job_'' @ n @ ''.json''"

definition gt_file :: "string \<Rightarrow> string" where
  "gt_file n = ''gt_'' @ n @ ''.json''"

definition make_job :: "config \<Rightarrow> string \<Rightarrow> string \<Rightarrow> recording \<Rightarrow> rat \<Rightarrow> job" where
  \<comment> \<open>\<open>job_dict\<close> after line 161, where the full name replaces the case's name.\<close>
  "make_job c session case_name r dur =
     \<lparr>session_name = session, recording_name = full_name session case_name,
      recording_dict = r, duration = dur, input_folder = session, debug = DEBUG c\<rparr>"

definition write_outputs :: "world \<Rightarrow> config \<Rightarrow> string \<Rightarrow> string \<Rightarrow> recording \<Rightarrow> rat \<Rightarrow> sorting \<Rightarrow> state \<Rightarrow> state" where
  \<comment> \<open>Lines 148 to 168: log the recording, write the two job files and the sorting,
      count the job.\<close>
  "write_outputs w c session case_name r dur g st =
     (let j = make_job c session case_name r dur;
          n = recording_name j;
          f1 = (files st)(recordings_folder @ [job_file n] \<mapsto> job_json w j);
          f2 = f1(flattened_folder @ [job_file n] \<mapsto> job_json w j);
          f3 = f2(flattened_folder @ [gt_file n] \<mapsto> sorting_json w g)
      in st\<lparr>files := f3,
            counter := counter st + 1,
            logged := logged st @ [LogRecording case_name dur (get_num_channels r)]\<rparr>)"

definition sorting_sibling :: "path \<Rightarrow> path" where
  \<comment> \<open>\<open>recording_zarr_folder.parent / "sorting.zarr"\<close>\<close>
  "sorting_sibling p = parent p @ [''sorting.zarr'']"

definition process_one :: "world \<Rightarrow> config \<Rightarrow> path \<Rightarrow> state \<Rightarrow> py_error + state" where
  "process_one w c recording_zarr_folder st =
     (if \<not> is_dir w (sorting_sibling recording_zarr_folder) then Inr st
      else
        (case parents1 recording_zarr_folder of
           Inl e \<Rightarrow> Inl e
         | Inr grandparent \<Rightarrow>
             (case load_recording w recording_zarr_folder of
                Inl e \<Rightarrow> Inl e
              | Inr r \<Rightarrow>
                  (case load_sorting w (sorting_sibling recording_zarr_folder) of
                     Inl e \<Rightarrow> Inl e
                   | Inr g \<Rightarrow>
                       (case prepare c r g of
                          Inl e \<Rightarrow> Inl e
                        | Inr (r', dur, g') \<Rightarrow>
                            Inr (write_outputs w c (name grandparent)
                                   (name (parent recording_zarr_folder)) r' dur g' st))))))"

fun process_all :: "world \<Rightarrow> config \<Rightarrow> path list \<Rightarrow> state \<Rightarrow> state \<times> py_error option" where
  "process_all w c [] st = (st, None)"
| "process_all w c (p # ps) st =
     (case process_one w c p st of
        Inl e \<Rightarrow> (st, Some e)
      | Inr st' \<Rightarrow> process_all w c ps st')"

section \<open>The whole run\<close>

definition after_setup :: "world \<Rightarrow> config \<Rightarrow> state" where
  \<comment> \<open>Lines 92 to 115: the parameters are logged, the two output directories made, the
      data folder walked.\<close>
  "after_setup w c =
     initial_state\<lparr>made_dirs := [recordings_folder, flattened_folder],
                    logged := [LogRunning c, LogLooking data_folder,
                               LogFound (length (discover w)), LogToBeProcessed]\<rparr>"

definition main :: "world \<Rightarrow> args \<Rightarrow> state \<times> py_error option" where
  "main w a =
     (case resolve_config w a of
        Inl e \<Rightarrow> (initial_state, Some e)
      | Inr c \<Rightarrow>
          (case subsample w (MAX_RECORDINGS c) (discover w) (after_setup w c) of
             (st, Inl e) \<Rightarrow> (st, Some e)
           | (st, Inr zarr_folders) \<Rightarrow>
               (case process_all w c zarr_folders st of
                  (st', Some e) \<Rightarrow> (st', Some e)
                | (st', None) \<Rightarrow>
                    (st'\<lparr>logged := logged st' @ [LogGenerated (counter st')]\<rparr>, None))))"

section \<open>Example worlds\<close>

text \<open>
  Concrete environments on which the theorems below are evaluated. \<open>tree_world walk\<close> is
  a data folder whose traversal is \<open>walk\<close>: a directory exists when its parent lists it,
  every recording loads as 3600000 samples at 30000 Hz on 4 channels (120 s), \<open>--params\<close>
  can be the inline text \<open>{}\<close> or the file \<open>params.json\<close> holding
  \<open>{"debug_duration": 30, "max_recordings": -1}\<close>, the generator's choice is the
  first \<open>size\<close> elements, and a serialized job shows its name and its source folder.
\<close>

fun join_path :: "path \<Rightarrow> string" where
  "join_path [] = []"
| "join_path [x] = x"
| "join_path (x # y # p) = x @ ''/'' @ join_path (y # p)"

fun recording_source :: "recording \<Rightarrow> path" where
  "recording_source (ZarrRecording p fs n ch) = p"
| "recording_source (FrameSliceRecording r s e) = recording_source r"

fun sorting_source :: "sorting \<Rightarrow> path" where
  "sorting_source (ZarrSorting p) = p"
| "sorting_source (FrameSliceSorting g s e) = sorting_source g"

definition show_job :: "job \<Rightarrow> string" where
  \<comment> \<open>A stand-in for the encoder: the job's name and the folder its recording is from.\<close>
  "show_job j = recording_name j @ '' from '' @ join_path (recording_source (recording_dict j))"

definition show_sorting :: "sorting \<Rightarrow> string" where
  "show_sorting g = ''sorting from '' @ join_path (sorting_source g)"

definition first_choice :: "nat \<Rightarrow> path list \<Rightarrow> json \<Rightarrow> py_error + path list" where
  "first_choice seed xs sz =
     (case sz of
        JInt k \<Rightarrow>
          (if k < 0 then Inl (ValueError ''negative dimensions are not allowed'')
           else if int (length xs) < k
           then Inl (ValueError ''Cannot take a larger sample than population when replace is False'')
           else Inr (take (nat k) xs))
      | _ \<Rightarrow> Inl TypeError)"

definition tree_world :: "(path \<times> string list) list \<Rightarrow> world" where
  "tree_world walk =
     \<lparr>json_loads = (\<lambda>s. if s = ''{}'' then Some (JObj []) else None),
      is_file = (\<lambda>s. s = ''params.json''),
      json_load_file =
        (\<lambda>s. if s = ''params.json''
             then Some (JObj [(''debug_duration'', JInt 30), (''max_recordings'', JInt (- 1))])
             else None),
      str_to_float = (\<lambda>s. if s = ''30'' then Some (Fin 30) else None),
      str_to_int = (\<lambda>s. if s = ''3'' then Some 3 else if s = ''-1'' then Some (- 1) else None),
      os_walk = walk,
      is_dir = (\<lambda>p. list_ex (\<lambda>(root, dirs). list_ex (\<lambda>d. p = root @ [d]) dirs) walk),
      load_recording = (\<lambda>p. Inr (ZarrRecording p 30000 3600000 4)),
      load_sorting = (\<lambda>p. Inr (ZarrSorting p)),
      rng_choice = first_choice,
      job_json = show_job,
      sorting_json = show_sorting\<rparr>"

definition case_names :: "string list" where
  "case_names = map (\<lambda>x. [CHR ''c'', x]) ''0123456789''"

definition paired_walk :: "(path \<times> string list) list" where
  \<comment> \<open>Session \<open>s1\<close> with the ten cases \<open>c0\<close> to \<open>c9\<close>, each a recording with its sorting.\<close>
  "paired_walk =
     (data_folder, [''s1'']) # (data_folder @ [''s1''], case_names) #
     map (\<lambda>cn. (data_folder @ [''s1'', cn], [''recording.zarr'', ''sorting.zarr''])) case_names"


definition twin_walk :: "(path \<times> string list) list" where
  \<comment> \<open>Two copies, under \<open>x\<close> and \<open>y\<close>, of session \<open>s1\<close> with its case \<open>c1\<close>.\<close>
  "twin_walk =
     [(data_folder, [''x'', ''y'']),
      (data_folder @ [''x''], [''s1'']), (data_folder @ [''x'', ''s1''], [''c1'']),
      (data_folder @ [''x'', ''s1'', ''c1''], [''recording.zarr'', ''sorting.zarr'']),
      (data_folder @ [''y''], [''s1'']), (data_folder @ [''y'', ''s1''], [''c1'']),
      (data_folder @ [''y'', ''s1'', ''c1''], [''recording.zarr'', ''sorting.zarr''])]"


definition no_args :: args where
  "no_args =
     \<lparr>arg_debug = False, arg_static_debug = None, arg_debug_duration = None,
      arg_static_debug_duration = None, arg_max_recordings = None,
      arg_static_max_recordings = None, arg_params = None\<rparr>"

definition params_file_args :: args where
  \<comment> \<open>\<open>--params params.json\<close>\<close>
  "params_file_args = no_args\<lparr>arg_params := Some ''params.json''\<rparr>"

definition minus_one_args :: args where
  \<comment> \<open>\<open>--max-recordings -1\<close>\<close>
  "minus_one_args = no_args\<lparr>arg_max_recordings := Some ''-1''\<rparr>"



definition default_config :: config where
  "default_config = \<lparr>DEBUG = JBool False, DEBUG_DURATION = Fin 30, MAX_RECORDINGS = JNull\<rparr>"

definition debug_config :: "pyfloat \<Rightarrow> config" where
  \<comment> \<open>\<open>--debug --debug-duration d\<close>\<close>
  "debug_config d = \<lparr>DEBUG = JBool True, DEBUG_DURATION = d, MAX_RECORDINGS = JNull\<rparr>"

definition example_recording :: recording where
  \<comment> \<open>The recording of the spec's example: 120 s at 30000 Hz on 4 channels.\<close>
  "example_recording =
     ZarrRecording (data_folder @ [''s1'', ''c1'', ''recording.zarr'']) 30000 3600000 4"

definition example_sorting :: sorting where
  "example_sorting = ZarrSorting (data_folder @ [''s1'', ''c1'', ''sorting.zarr''])"


definition twin_x :: path where
  "twin_x = data_folder @ [''x'', ''s1'', ''c1'', ''recording.zarr'']"

definition twin_y :: path where
  "twin_y = data_folder @ [''y'', ''s1'', ''c1'', ''recording.zarr'']"

section \<open>Conditions on session and case names\<close>

text \<open>
  The script checks nothing about the names it joins with \<open>__\<close>; these predicates state
  what a caller can guarantee about them.
\<close>

fun contains_sep :: "string \<Rightarrow> bool" where
  "contains_sep (a # b # s) = ((a = CHR ''_'' \<and> b = CHR ''_'') \<or> contains_sep (b # s))"
| "contains_sep s = False"

definition ends_with_underscore :: "string \<Rightarrow> bool" where
  "ends_with_underscore s = (s \<noteq> [] \<and> last s = CHR ''_'')"

definition starts_with_underscore :: "string \<Rightarrow> bool" where
  "starts_with_underscore s = (s \<noteq> [] \<and> hd s = CHR ''_'')"

section \<open>The counter and the files of the generation loop\<close>

lemma process_one_cases:
  assumes "process_one w c p st = Inr st'"
  shows "(\<not> is_dir w (sorting_sibling p) \<and> st' = st) \<or>
         (is_dir w (sorting_sibling p) \<and>
          (\<exists>gp r g r' dur g'. parents1 p = Inr gp \<and> load_recording w p = Inr r \<and>
              load_sorting w (sorting_sibling p) = Inr g \<and> prepare c r g = Inr (r', dur, g') \<and>
              st' = write_outputs w c (name gp) (name (parent p)) r' dur g' st))"
  using assms unfolding process_one_def
  by (auto split: if_splits sum.splits prod.splits)

lemma counter_write_outputs: "counter (write_outputs w c s n r d g st) = counter st + 1"
  by (simp add: write_outputs_def Let_def)

lemma process_one_counter:
  assumes "process_one w c p st = Inr st'"
  shows "counter st' = counter st + (if is_dir w (sorting_sibling p) then 1 else 0)"
  using process_one_cases [OF assms] by (auto simp: counter_write_outputs)

lemma process_all_counter:
  "process_all w c ps st = (st', None) \<Longrightarrow>
   counter st' = counter st + length (filter (\<lambda>p. is_dir w (sorting_sibling p)) ps)"
proof (induction ps arbitrary: st)
  case Nil
  then show ?case by simp
next
  case (Cons p ps)
  then obtain st1 where one: "process_one w c p st = Inr st1"
    and rest: "process_all w c ps st1 = (st', None)"
    by (auto split: sum.splits)
  from Cons.IH [OF rest] process_one_counter [OF one] show ?case by simp
qed

section \<open>Configuration claims\<close>

text \<open>
  Claim C2 says that a params blob without \<open>debug_duration\<close> runs with the default of 30
  seconds. The code does not: line 77 is \<open>float(params.get("debug_duration"))\<close>, with no
  default, so the lookup gives \<open>None\<close> and \<open>float(None)\<close> raises \<open>TypeError\<close> before
  anything is made or written. The help text of the option and the command-line branch
  (line 48, \<open>default=30\<close>) both have the default the blob branch misses.
\<close>

theorem C2_params_without_debug_duration_raises:
  assumes "arg_params a = Some s"
    and "load_params w s = Inr (JObj kvs)"
    and "map_of kvs ''debug_duration'' = None"
  shows "resolve_config w a = Inl TypeError \<and> main w a = (initial_state, Some TypeError)"
  using assms
  by (simp add: main_def resolve_config_def config_from_params_def dict_get_def py_float_def)

theorem C2_params_without_debug_duration_raises_witness:
  "arg_params (no_args\<lparr>arg_params := Some ''{}''\<rparr>) = Some ''{}'' \<and>
   load_params (tree_world paired_walk) ''{}'' = Inr (JObj []) \<and>
   map_of ([] :: (string \<times> json) list) ''debug_duration'' = None \<and>
   resolve_config (tree_world paired_walk) (no_args\<lparr>arg_params := Some ''{}''\<rparr>) = Inl TypeError \<and>
   main (tree_world paired_walk) (no_args\<lparr>arg_params := Some ''{}''\<rparr>)
     = (initial_state, Some TypeError)"
proof -
  have p: "arg_params (no_args\<lparr>arg_params := Some ''{}''\<rparr>) = Some ''{}''"
    by simp
  have l: "load_params (tree_world paired_walk) ''{}'' = Inr (JObj [])"
    by (simp add: load_params_def tree_world_def)
  have m: "map_of ([] :: (string \<times> json) list) ''debug_duration'' = None"
    by simp
  from C2_params_without_debug_duration_raises [OF p l m] p l m show ?thesis
    by simp
qed

text \<open>
  Claim C3 says that \<open>max_recordings = -1\<close> means unlimited on every configuration path.
  On the command line it does (lines 86 to 90 turn \<open>-1\<close> into \<open>None\<close>, and nothing is
  sampled). In a params blob it does not: line 78 keeps the \<open>-1\<close>, the guard of line 117 is
  true for every number of folders, the sampling is logged and the generator is asked for a
  sample of size \<open>-1\<close>.
\<close>

theorem C3_minus_one_in_params_is_sampled:
  "(py_or (arg_static_max_recordings a) (arg_max_recordings a) = Some s \<and>
    str_to_int w s = Some (- 1) \<and> config_from_args w a = Inr c
      \<longrightarrow> MAX_RECORDINGS c = JNull \<and>
          subsample w (MAX_RECORDINGS c) zarr_folders st = (st, Inr zarr_folders))
   \<and>
   (map_of kvs ''max_recordings'' = Some (JInt (- 1)) \<and>
    config_from_params w (JObj kvs) = Inr c'
      \<longrightarrow> MAX_RECORDINGS c' = JInt (- 1) \<and>
          subsample w (MAX_RECORDINGS c') zarr_folders st
            = (st\<lparr>logged := logged st @ [LogSampling (JInt (- 1))]\<rparr>,
               rng_choice w 0 zarr_folders (JInt (- 1))))"
proof (intro conjI impI)
  assume h: "py_or (arg_static_max_recordings a) (arg_max_recordings a) = Some s \<and>
    str_to_int w s = Some (- 1) \<and> config_from_args w a = Inr c"
  then show m: "MAX_RECORDINGS c = JNull"
    by (auto simp: config_from_args_def Let_def split: sum.splits)
  show "subsample w (MAX_RECORDINGS c) zarr_folders st = (st, Inr zarr_folders)"
    by (simp add: m subsample_def needs_sampling_def)
next
  assume h: "map_of kvs ''max_recordings'' = Some (JInt (- 1)) \<and>
    config_from_params w (JObj kvs) = Inr c'"
  then show m: "MAX_RECORDINGS c' = JInt (- 1)"
    by (auto simp: config_from_params_def dict_get_def split: sum.splits)
  show "subsample w (MAX_RECORDINGS c') zarr_folders st
            = (st\<lparr>logged := logged st @ [LogSampling (JInt (- 1))]\<rparr>,
               rng_choice w 0 zarr_folders (JInt (- 1)))"
    by (simp add: m subsample_def needs_sampling_def py_lt_len_def)
qed

theorem C3_minus_one_in_params_is_sampled_witness:
  "config_from_args (tree_world paired_walk) minus_one_args
     = Inr \<lparr>DEBUG = JBool False, DEBUG_DURATION = Fin 30, MAX_RECORDINGS = JNull\<rparr> \<and>
   subsample (tree_world paired_walk) JNull (discover (tree_world paired_walk)) initial_state
     = (initial_state, Inr (discover (tree_world paired_walk))) \<and>
   config_from_params (tree_world paired_walk)
       (JObj [(''debug_duration'', JInt 30), (''max_recordings'', JInt (- 1))])
     = Inr \<lparr>DEBUG = JBool False, DEBUG_DURATION = Fin 30, MAX_RECORDINGS = JInt (- 1)\<rparr> \<and>
   snd (subsample (tree_world paired_walk) (JInt (- 1)) (discover (tree_world paired_walk))
          initial_state)
     = Inl (ValueError ''negative dimensions are not allowed'') \<and>
   snd (main (tree_world paired_walk) params_file_args)
     = Some (ValueError ''negative dimensions are not allowed'') \<and>
   counter (fst (main (tree_world paired_walk) params_file_args)) = 0 \<and>
   snd (main (tree_world paired_walk) minus_one_args) = None \<and>
   counter (fst (main (tree_world paired_walk) minus_one_args)) = 10"
proof -
  let ?w = "tree_world paired_walk"
  let ?kvs = "[(''debug_duration'', JInt 30), (''max_recordings'', JInt (- 1))]"
  let ?c = "\<lparr>DEBUG = JBool False, DEBUG_DURATION = Fin 30, MAX_RECORDINGS = JNull\<rparr>"
  let ?c' = "\<lparr>DEBUG = JBool False, DEBUG_DURATION = Fin 30, MAX_RECORDINGS = JInt (- 1)\<rparr>"
  have a1: "py_or (arg_static_max_recordings minus_one_args) (arg_max_recordings minus_one_args)
              = Some ''-1''"
    by (simp add: minus_one_args_def no_args_def py_or_def)
  have a2: "str_to_int ?w ''-1'' = Some (- 1)"
    by (simp add: tree_world_def)
  have a3: "config_from_args ?w minus_one_args = Inr ?c"
    by (simp add: config_from_args_def minus_one_args_def no_args_def py_or_def py_float_def
        tree_world_def)
  have b1: "map_of ?kvs ''max_recordings'' = Some (JInt (- 1))"
    by simp
  have b2: "config_from_params ?w (JObj ?kvs) = Inr ?c'"
    by (simp add: config_from_params_def dict_get_def py_float_def)
  have ch: "rng_choice ?w 0 (discover ?w) (JInt (- 1))
              = Inl (ValueError ''negative dimensions are not allowed'')"
    by (simp add: tree_world_def first_choice_def)
  have m1: "snd (main ?w params_file_args)
              = Some (ValueError ''negative dimensions are not allowed'')"
    by code_simp
  have m2: "counter (fst (main ?w params_file_args)) = 0"
    by code_simp
  have m3: "snd (main ?w minus_one_args) = None"
    by code_simp
  have m4: "counter (fst (main ?w minus_one_args)) = 10"
    by code_simp
  from C3_minus_one_in_params_is_sampled
         [of minus_one_args "''-1''" ?w ?c "discover ?w" initial_state ?kvs ?c']
       a1 a2 a3 b1 b2 ch m1 m2 m3 m4
  show ?thesis by simp
qed



section \<open>Debug truncation\<close>



lemma end_frame_slice:
  assumes "py_int (fmul d (sampling_frequency r)) = Inr k"
  shows "end_frame d r = Inr (min k (get_num_samples r))"
    and "0 < min k (get_num_samples r) \<Longrightarrow>
         end_frame d (FrameSliceRecording r 0 (min k (get_num_samples r)))
           = Inr (min k (get_num_samples r))"
  using assms by (simp_all add: end_frame_def)

lemma prepare_debug:
  assumes "truthy (DEBUG c)"
    and "py_int (fmul (DEBUG_DURATION c) (sampling_frequency r)) = Inr k"
  shows "prepare c r g =
           (if 0 < min k (get_num_samples r)
            then Inr (FrameSliceRecording r 0 (min k (get_num_samples r)),
                      np_round2 (of_int (min k (get_num_samples r)) / sampling_frequency r),
                      FrameSliceSorting g 0 (min k (get_num_samples r)))
            else Inl AssertionError)"
proof (cases "0 < min k (get_num_samples r)")
  let ?e = "min k (get_num_samples r)"
  note ef = end_frame_slice [OF assms(2)]
  case True
  have s1: "frame_slice r 0 ?e = Inr (FrameSliceRecording r 0 ?e)"
    using True unfolding frame_slice_def by simp
  have s2: "sorting_frame_slice g 0 ?e = Inr (FrameSliceSorting g 0 ?e)"
    using True unfolding sorting_frame_slice_def by simp
  have d: "get_total_duration (FrameSliceRecording r 0 ?e) = of_int ?e / sampling_frequency r"
    by (simp add: get_total_duration_def)
  have "prepare c r g = Inr (FrameSliceRecording r 0 ?e,
                    np_round2 (of_int ?e / sampling_frequency r),
                    FrameSliceSorting g 0 ?e)"
    unfolding prepare_def using assms(1)
    by (simp only: ef(1) ef(2) [OF True] s1 s2 d if_True sum.case)
  with True show ?thesis by (simp only: if_True)
next
  let ?e = "min k (get_num_samples r)"
  note ef = end_frame_slice [OF assms(2)]
  case False
  have s1: "frame_slice r 0 ?e = Inl AssertionError"
    using False unfolding frame_slice_def by simp
  have "prepare c r g = Inl AssertionError"
    unfolding prepare_def using assms(1) by (simp only: ef(1) s1 if_True sum.case)
  with False show ?thesis by (simp only: if_False)
qed

text \<open>
  Claim C4: with debug enabled, the recording is sliced to \<open>[0, e)\<close> with
  \<open>e = min(int(DEBUG_DURATION * sampling_frequency), num_samples)\<close> and the sorting to the
  same \<open>[0, e)\<close>. The sorting's end frame (lines 141 to 143) is computed from the recording
  already sliced, which has the same sampling frequency and \<open>e\<close> samples, so it is
  \<open>min(k, e) = e\<close> again. \<open>k\<close> is the value of \<open>int(...)\<close>; when \<open>e\<close> is not positive the
  library refuses the slice and nothing is truncated.
\<close>

theorem C4_debug_ranges_identical:
  assumes "truthy (DEBUG c)"
    and "py_int (fmul (DEBUG_DURATION c) (sampling_frequency r)) = Inr k"
  shows "prepare c r g =
           (if 0 < min k (get_num_samples r)
            then Inr (FrameSliceRecording r 0 (min k (get_num_samples r)),
                      np_round2 (of_int (min k (get_num_samples r)) / sampling_frequency r),
                      FrameSliceSorting g 0 (min k (get_num_samples r)))
            else Inl AssertionError)
         \<and> (0 < min k (get_num_samples r) \<longrightarrow>
              end_frame (DEBUG_DURATION c) (FrameSliceRecording r 0 (min k (get_num_samples r)))
                = end_frame (DEBUG_DURATION c) r)"
  using prepare_debug [OF assms] end_frame_slice [OF assms(2)] by simp

theorem C4_debug_ranges_identical_witness:
  "truthy (DEBUG (debug_config (Fin 30))) \<and>
   py_int (fmul (DEBUG_DURATION (debug_config (Fin 30))) (sampling_frequency example_recording))
     = Inr 900000 \<and>
   prepare (debug_config (Fin 30)) example_recording example_sorting
     = Inr (FrameSliceRecording example_recording 0 900000, 30,
            FrameSliceSorting example_sorting 0 900000) \<and>
   end_frame (DEBUG_DURATION (debug_config (Fin 30)))
       (FrameSliceRecording example_recording 0 900000) = Inr 900000 \<and>
   end_frame (DEBUG_DURATION (debug_config (Fin 30))) example_recording = Inr 900000"
proof -
  have t: "truthy (DEBUG (debug_config (Fin 30)))"
    by (simp add: debug_config_def truthy_def)
  have k: "py_int (fmul (DEBUG_DURATION (debug_config (Fin 30)))
                    (sampling_frequency example_recording)) = Inr 900000"
    by (simp add: debug_config_def example_recording_def fmul_def py_int_def)
  have n: "get_num_samples example_recording = 3600000"
    "sampling_frequency example_recording = 30000"
    by (simp_all add: example_recording_def)
  have r: "np_round2 30 = 30"
    by (simp add: np_round2_def round_half_even_def)
  have e: "end_frame (DEBUG_DURATION (debug_config (Fin 30))) example_recording = Inr 900000"
    using k by (simp add: end_frame_def n)
  from C4_debug_ranges_identical [OF t k, of example_sorting] t k e show ?thesis
    by (simp add: n r)
qed







section \<open>Job names\<close>

lemma contains_sep_append: "contains_sep (xs @ ''__'' @ ys)"
proof (induction xs)
  case Nil
  then show ?case by simp
next
  case (Cons x xs)
  then show ?case by (cases "xs @ ''__'' @ ys") auto
qed

lemma full_name_collision:
  assumes eq: "full_name s1 c1 = full_name s2 c2" and "length s1 \<le> length s2"
    and "\<not> contains_sep s2"
  shows "(s1 = s2 \<and> c1 = c2) \<or> (ends_with_underscore s2 \<and> starts_with_underscore c1)"
proof -
  from eq have "s1 @ ''__'' @ c1 = s2 @ ''__'' @ c2"
    by (simp add: full_name_def)
  with assms(2) obtain us where us: "s2 = s1 @ us" "''__'' @ c1 = us @ ''__'' @ c2"
    by (auto simp: append_eq_append_conv2)
  show ?thesis
  proof (cases us)
    case Nil
    with us show ?thesis by simp
  next
    case (Cons x xs)
    show ?thesis
    proof (cases xs)
      case Nil
      with Cons us show ?thesis
        by (auto simp: ends_with_underscore_def starts_with_underscore_def)
    next
      case (Cons y ys)
      with \<open>us = x # xs\<close> us have "s2 = s1 @ ''__'' @ ys"
        by auto
      with assms(3) contains_sep_append show ?thesis by metis
    qed
  qed
qed

text \<open>
  Claim C9, as amended: two pairs with different (session, case) names, none of which
  contains \<open>__\<close>, get different full names, and so different output file names, provided
  no session name ends with an underscore or no case name starts with one.
\<close>

theorem C9_full_name_injective:
  assumes "\<not> contains_sep s1" and "\<not> contains_sep c1"
    and "\<not> contains_sep s2" and "\<not> contains_sep c2"
    and "(\<not> ends_with_underscore s1 \<and> \<not> ends_with_underscore s2) \<or>
         (\<not> starts_with_underscore c1 \<and> \<not> starts_with_underscore c2)"
    and "(s1, c1) \<noteq> (s2, c2)"
  shows "full_name s1 c1 \<noteq> full_name s2 c2 \<and>
         job_file (full_name s1 c1) \<noteq> job_file (full_name s2 c2) \<and>
         gt_file (full_name s1 c1) \<noteq> gt_file (full_name s2 c2)"
proof -
  have "full_name s1 c1 \<noteq> full_name s2 c2"
  proof
    assume eq: "full_name s1 c1 = full_name s2 c2"
    show False
    proof (cases "length s1 \<le> length s2")
      case True
      from full_name_collision [OF eq True assms(3)] assms(5,6) show False by auto
    next
      case False
      then have "length s2 \<le> length s1" by simp
      from full_name_collision [OF eq [symmetric] this assms(1)] assms(5,6) show False by auto
    qed
  qed
  then show ?thesis by (simp add: job_file_def gt_file_def)
qed

theorem C9_full_name_injective_witness:
  "\<not> contains_sep ''s1'' \<and> \<not> contains_sep ''c1'' \<and> \<not> contains_sep ''s1'' \<and>
   \<not> contains_sep ''c_2'' \<and> \<not> ends_with_underscore ''s1'' \<and>
   (''s1'', ''c1'') \<noteq> (''s1'', ''c_2'') \<and>
   full_name ''s1'' ''c1'' = ''s1__c1'' \<and> full_name ''s1'' ''c_2'' = ''s1__c_2'' \<and>
   full_name ''s1'' ''c1'' \<noteq> full_name ''s1'' ''c_2'' \<and>
   job_file (full_name ''s1'' ''c1'') \<noteq> job_file (full_name ''s1'' ''c_2'')"
proof -
  have a: "\<not> contains_sep ''s1''" "\<not> contains_sep ''c1''" "\<not> contains_sep ''c_2''"
    by simp_all
  have b: "(\<not> ends_with_underscore ''s1'' \<and> \<not> ends_with_underscore ''s1'') \<or>
         (\<not> starts_with_underscore ''c1'' \<and> \<not> starts_with_underscore ''c_2'')"
    by (simp add: ends_with_underscore_def)
  have c: "(''s1'', ''c1'') \<noteq> (''s1'', ''c_2'')"
    by simp
  have d: "full_name ''s1'' ''c1'' = ''s1__c1''" "full_name ''s1'' ''c_2'' = ''s1__c_2''"
    "\<not> ends_with_underscore ''s1''"
    by (simp_all add: full_name_def ends_with_underscore_def)
  from C9_full_name_injective [OF a(1) a(2) a(1) a(3) b c] a c d show ?thesis
    by simp
qed

text \<open>
  Claim C9 as stated fails where an underscore touches the separator: session \<open>a_\<close> with
  case \<open>b\<close> and session \<open>a\<close> with case \<open>_b\<close> contain no \<open>__\<close> and both become \<open>a___b\<close>.
\<close>

theorem C9_underscore_counterexample:
  "\<not> contains_sep ''a_'' \<and> \<not> contains_sep ''b'' \<and> \<not> contains_sep ''a'' \<and>
   \<not> contains_sep ''_b'' \<and> (''a_'', ''b'') \<noteq> (''a'', ''_b'') \<and>
   full_name ''a_'' ''b'' = full_name ''a'' ''_b'' \<and>
   job_file (full_name ''a_'' ''b'') = job_file (full_name ''a'' ''_b'')"
  by (simp add: full_name_def)

section \<open>Subsampling\<close>

lemma main_run:
  assumes "resolve_config w a = Inr c"
    and "subsample w (MAX_RECORDINGS c) (discover w) (after_setup w c) = (st0, Inr zarr_folders)"
    and "main w a = (st, None)"
  shows "\<exists>st'. process_all w c zarr_folders st0 = (st', None) \<and>
           st = st'\<lparr>logged := logged st' @ [LogGenerated (counter st')]\<rparr>"
  using assms unfolding main_def
  by (auto split: prod.splits option.splits)

lemma subsample_counter:
  "subsample w m zs st0 = (st1, res) \<Longrightarrow> counter st1 = counter st0 \<and> files st1 = files st0"
  unfolding subsample_def by (auto split: sum.splits bool.splits)

lemma counter_after_setup: "counter (after_setup w c) = 0"
  by (simp add: after_setup_def initial_state_def)

lemma files_after_setup: "files (after_setup w c) = Map.empty"
  by (simp add: after_setup_def initial_state_def)

lemma main_counter:
  assumes "resolve_config w a = Inr c"
    and "subsample w (MAX_RECORDINGS c) (discover w) (after_setup w c) = (st0, Inr zarr_folders)"
    and "main w a = (st, None)"
  shows "counter st = length (filter (\<lambda>p. is_dir w (sorting_sibling p)) zarr_folders)"
    and "logged st \<noteq> [] \<and> last (logged st) = LogGenerated (counter st)"
proof -
  from main_run [OF assms] obtain st' where
    pa: "process_all w c zarr_folders st0 = (st', None)"
    and st: "st = st'\<lparr>logged := logged st' @ [LogGenerated (counter st')]\<rparr>"
    by blast
  from subsample_counter [OF assms(2)] have "counter st0 = 0"
    by (simp add: counter_after_setup)
  with process_all_counter [OF pa] st
  show "counter st = length (filter (\<lambda>p. is_dir w (sorting_sibling p)) zarr_folders)"
    by simp
  from st show "logged st \<noteq> [] \<and> last (logged st) = LogGenerated (counter st)"
    by simp
qed





lemma sampled_unpaired_folder_lowers_count:
  assumes "resolve_config w a = Inr c"
    and "MAX_RECORDINGS c = JInt k"
    and "k < int (length (discover w))"
    and "rng_choice w 0 (discover w) (JInt k) = Inr chosen"
    and "length chosen = nat k"
    and "main w a = (st, None)"
    and "p \<in> set chosen" and "\<not> is_dir w (sorting_sibling p)"
  shows "counter st < nat k"
proof -
  have "needs_sampling (JInt k) (length (discover w)) = Inr True"
    using assms(3) by (simp add: needs_sampling_def py_lt_len_def)
  then have sub: "subsample w (MAX_RECORDINGS c) (discover w) (after_setup w c)
      = ((after_setup w c)\<lparr>logged := logged (after_setup w c) @ [LogSampling (JInt k)]\<rparr>,
         Inr chosen)"
    by (simp add: subsample_def assms(2,4))
  from main_counter(1) [OF assms(1) sub assms(6)]
  have "counter st = length (filter (\<lambda>p. is_dir w (sorting_sibling p)) chosen)" .
  also have "\<dots> < length chosen"
    using assms(7,8) by (meson length_filter_less)
  finally show ?thesis using assms(5) by simp
qed



section \<open>The files written\<close>

lemma write_outputs_copies:
  assumes "files st (recordings_folder @ [job_file n]) = files st (flattened_folder @ [job_file n])"
  shows "files (write_outputs w c s cn r d g st) (recordings_folder @ [job_file n])
         = files (write_outputs w c s cn r d g st) (flattened_folder @ [job_file n])"
  using assms
  by (simp add: write_outputs_def Let_def recordings_folder_def flattened_folder_def
      job_file_def gt_file_def)

lemma write_outputs_files:
  "files (write_outputs w c s cn r d g st) (recordings_folder @ [job_file (full_name s cn)])
     = Some (job_json w (make_job c s cn r d))"
  "files (write_outputs w c s cn r d g st) (flattened_folder @ [job_file (full_name s cn)])
     = Some (job_json w (make_job c s cn r d))"
  "files (write_outputs w c s cn r d g st) (flattened_folder @ [gt_file (full_name s cn)])
     = Some (sorting_json w g)"
  by (simp_all add: write_outputs_def Let_def recordings_folder_def flattened_folder_def
      job_file_def gt_file_def make_job_def)

lemma process_one_copies:
  assumes "process_one w c p st = Inr st'"
    and "files st (recordings_folder @ [job_file n]) = files st (flattened_folder @ [job_file n])"
  shows "files st' (recordings_folder @ [job_file n]) = files st' (flattened_folder @ [job_file n])"
  using process_one_cases [OF assms(1)] assms(2) by (auto simp: write_outputs_copies)

lemma process_all_copies:
  assumes "files st (recordings_folder @ [job_file n]) = files st (flattened_folder @ [job_file n])"
  shows "files (fst (process_all w c ps st)) (recordings_folder @ [job_file n])
         = files (fst (process_all w c ps st)) (flattened_folder @ [job_file n])"
  using assms
proof (induction ps arbitrary: st)
  case Nil
  then show ?case by simp
next
  case (Cons p ps)
  show ?case
  proof (cases "process_one w c p st")
    case (Inl e)
    with Cons.prems show ?thesis by simp
  next
    case (Inr st1)
    from Cons.IH [OF process_one_copies [OF Inr Cons.prems]] Inr show ?thesis by simp
  qed
qed

lemma main_copies:
  "files (fst (main w a)) (recordings_folder @ [job_file n])
   = files (fst (main w a)) (flattened_folder @ [job_file n])"
proof (cases "resolve_config w a")
  case (Inl e)
  then show ?thesis by (simp add: main_def initial_state_def)
next
  case (Inr c)
  obtain st0 res where sub:
    "subsample w (MAX_RECORDINGS c) (discover w) (after_setup w c) = (st0, res)"
    by (cases "subsample w (MAX_RECORDINGS c) (discover w) (after_setup w c)")
  from subsample_counter [OF sub] have f0: "files st0 = Map.empty"
    by (simp add: files_after_setup)
  show ?thesis
  proof (cases res)
    case (Inl e)
    with Inr sub f0 show ?thesis by (simp add: main_def)
  next
    case (Inr zs)
    have "files st0 (recordings_folder @ [job_file n]) = files st0 (flattened_folder @ [job_file n])"
      by (simp add: f0)
    from process_all_copies [OF this, of w c zs]
    show ?thesis
      using \<open>resolve_config w a = Inr c\<close> sub Inr
      by (auto simp: main_def split: prod.splits option.splits)
  qed
qed

lemma process_one_written:
  assumes "process_one w c q st = Inr st'" and "is_dir w (sorting_sibling q)"
  shows "\<exists>gq r0 g0 r dur g.
           parents1 q = Inr gq \<and> load_recording w q = Inr r0 \<and>
           load_sorting w (sorting_sibling q) = Inr g0 \<and> prepare c r0 g0 = Inr (r, dur, g) \<and>
           files st' (recordings_folder @ [job_file (full_name (name gq) (name (parent q)))])
             = Some (job_json w (make_job c (name gq) (name (parent q)) r dur)) \<and>
           files st' (flattened_folder @ [job_file (full_name (name gq) (name (parent q)))])
             = Some (job_json w (make_job c (name gq) (name (parent q)) r dur)) \<and>
           files st' (flattened_folder @ [gt_file (full_name (name gq) (name (parent q)))])
             = Some (sorting_json w g)"
  using process_one_cases [OF assms(1)] assms(2)
  by (auto simp: write_outputs_files)

text \<open>
  Claim C8: whatever the run does, and whether or not it ends in an error, the file
  \<open>job_<name>.json\<close> of the recordings folder and the one of the flattened folder have the
  same content, for every name; and a recording folder with a sorting sibling that is
  processed leaves both files written, with the serialization of the same job.
\<close>

theorem C8_job_copies_identical:
  "files (fst (main w a)) (recordings_folder @ [job_file n])
     = files (fst (main w a)) (flattened_folder @ [job_file n])
   \<and> (is_dir w (sorting_sibling p) \<and> process_one w c p st = Inr st' \<longrightarrow>
        (\<exists>gp r dur. parents1 p = Inr gp \<and>
           files st' (recordings_folder @ [job_file (full_name (name gp) (name (parent p)))])
             = Some (job_json w (make_job c (name gp) (name (parent p)) r dur)) \<and>
           files st' (flattened_folder @ [job_file (full_name (name gp) (name (parent p)))])
             = Some (job_json w (make_job c (name gp) (name (parent p)) r dur))))"
proof (intro conjI impI)
  show "files (fst (main w a)) (recordings_folder @ [job_file n])
     = files (fst (main w a)) (flattened_folder @ [job_file n])"
    by (rule main_copies)
next
  assume "is_dir w (sorting_sibling p) \<and> process_one w c p st = Inr st'"
  then have "process_one w c p st = Inr st'" and "is_dir w (sorting_sibling p)"
    by simp_all
  from process_one_written [OF this]
  show "\<exists>gp r dur. parents1 p = Inr gp \<and>
           files st' (recordings_folder @ [job_file (full_name (name gp) (name (parent p)))])
             = Some (job_json w (make_job c (name gp) (name (parent p)) r dur)) \<and>
           files st' (flattened_folder @ [job_file (full_name (name gp) (name (parent p)))])
             = Some (job_json w (make_job c (name gp) (name (parent p)) r dur))"
    by blast
qed

theorem C8_job_copies_identical_witness:
  "files (fst (main (tree_world twin_walk) no_args)) (recordings_folder @ [job_file ''s1__c1''])
     = Some ''s1__c1 from ../data/y/s1/c1/recording.zarr'' \<and>
   files (fst (main (tree_world twin_walk) no_args)) (flattened_folder @ [job_file ''s1__c1''])
     = Some ''s1__c1 from ../data/y/s1/c1/recording.zarr'' \<and>
   is_dir (tree_world twin_walk) (sorting_sibling twin_x) \<and>
   process_one (tree_world twin_walk) default_config twin_x initial_state
     = Inr (write_outputs (tree_world twin_walk) default_config ''s1'' ''c1''
              (ZarrRecording twin_x 30000 3600000 4) 120 (ZarrSorting (sorting_sibling twin_x))
              initial_state) \<and>
   (\<exists>gp r dur. parents1 twin_x = Inr gp \<and>
      files (write_outputs (tree_world twin_walk) default_config ''s1'' ''c1''
              (ZarrRecording twin_x 30000 3600000 4) 120 (ZarrSorting (sorting_sibling twin_x))
              initial_state)
        (recordings_folder @ [job_file (full_name (name gp) (name (parent twin_x)))])
        = Some (job_json (tree_world twin_walk)
                 (make_job default_config (name gp) (name (parent twin_x)) r dur)) \<and>
      files (write_outputs (tree_world twin_walk) default_config ''s1'' ''c1''
              (ZarrRecording twin_x 30000 3600000 4) 120 (ZarrSorting (sorting_sibling twin_x))
              initial_state)
        (flattened_folder @ [job_file (full_name (name gp) (name (parent twin_x)))])
        = Some (job_json (tree_world twin_walk)
                 (make_job default_config (name gp) (name (parent twin_x)) r dur)))"
proof -
  let ?t = "tree_world twin_walk"
  let ?st' = "write_outputs ?t default_config ''s1'' ''c1''
              (ZarrRecording twin_x 30000 3600000 4) 120 (ZarrSorting (sorting_sibling twin_x))
              initial_state"
  have 1: "files (fst (main ?t no_args)) (recordings_folder @ [job_file ''s1__c1''])
             = Some ''s1__c1 from ../data/y/s1/c1/recording.zarr''"
    by code_simp
  have d: "is_dir ?t (sorting_sibling twin_x)"
    by code_simp
  have r: "np_round2 120 = 120"
    by (simp add: np_round2_def round_half_even_def)
  have p: "process_one ?t default_config twin_x initial_state = Inr ?st'"
    unfolding process_one_def using d
    by (simp add: tree_world_def twin_x_def data_folder_def parents1_def parent_def name_def
        default_config_def prepare_def truthy_def get_total_duration_def r sorting_sibling_def)
  from C8_job_copies_identical [of ?t no_args "''s1__c1''" twin_x default_config
         initial_state ?st'] 1 d p
  show ?thesis by simp
qed

lemma process_all_snoc:
  "process_all w c (ps @ [q]) st = (st', None) \<Longrightarrow>
   \<exists>st1. process_all w c ps st = (st1, None) \<and> process_one w c q st1 = Inr st'"
proof (induction ps arbitrary: st)
  case Nil
  then show ?case by (auto split: sum.splits)
next
  case (Cons p ps)
  then show ?case by (auto split: sum.splits)
qed

text \<open>
  Claim C10: the count reported by a run that completes (the last line it logs) is the
  number of folders among those it iterates over that have a \<open>sorting.zarr\<close> sibling.
  When a folder \<open>q\<close> is processed after a folder \<open>p\<close> with the same session and case
  names, the file names of the two coincide, the counter has counted both, and the files
  named after \<open>p\<close> hold what was made from \<open>q\<close>.
\<close>

theorem C10_counter_counts_every_processed_pair:
  "(resolve_config w a = Inr c \<and>
    subsample w (MAX_RECORDINGS c) (discover w) (after_setup w c) = (st0, Inr zarr_folders) \<and>
    main w a = (st, None)
      \<longrightarrow> counter st = length (filter (\<lambda>p. is_dir w (sorting_sibling p)) zarr_folders) \<and>
          last (logged st) = LogGenerated (counter st))
   \<and>
   (process_all w c (ps @ [q]) st1 = (st2, None) \<and> p \<in> set ps \<and>
    is_dir w (sorting_sibling p) \<and> is_dir w (sorting_sibling q) \<and>
    parents1 p = Inr gp \<and> parents1 q = Inr gq \<and>
    name gp = name gq \<and> name (parent p) = name (parent q)
      \<longrightarrow> job_file (full_name (name gp) (name (parent p)))
            = job_file (full_name (name gq) (name (parent q))) \<and>
          counter st2 = counter st1 + length (filter (\<lambda>p. is_dir w (sorting_sibling p)) (ps @ [q])) \<and>
          counter st1 + 2 \<le> counter st2 \<and>
          (\<exists>r0 g0 r dur g.
             load_recording w q = Inr r0 \<and> load_sorting w (sorting_sibling q) = Inr g0 \<and>
             prepare c r0 g0 = Inr (r, dur, g) \<and>
             files st2 (recordings_folder @ [job_file (full_name (name gp) (name (parent p)))])
               = Some (job_json w (make_job c (name gq) (name (parent q)) r dur)) \<and>
             files st2 (flattened_folder @ [job_file (full_name (name gp) (name (parent p)))])
               = Some (job_json w (make_job c (name gq) (name (parent q)) r dur)) \<and>
             files st2 (flattened_folder @ [gt_file (full_name (name gp) (name (parent p)))])
               = Some (sorting_json w g)))"
proof (intro conjI impI)
  assume h: "resolve_config w a = Inr c \<and>
    subsample w (MAX_RECORDINGS c) (discover w) (after_setup w c) = (st0, Inr zarr_folders) \<and>
    main w a = (st, None)"
  then have 1: "resolve_config w a = Inr c"
    and 2: "subsample w (MAX_RECORDINGS c) (discover w) (after_setup w c) = (st0, Inr zarr_folders)"
    and 3: "main w a = (st, None)"
    by simp_all
  from main_counter [OF 1 2 3]
  show "counter st = length (filter (\<lambda>p. is_dir w (sorting_sibling p)) zarr_folders)"
    and "last (logged st) = LogGenerated (counter st)"
    by simp_all
next
  assume h: "process_all w c (ps @ [q]) st1 = (st2, None) \<and> p \<in> set ps \<and>
    is_dir w (sorting_sibling p) \<and> is_dir w (sorting_sibling q) \<and>
    parents1 p = Inr gp \<and> parents1 q = Inr gq \<and>
    name gp = name gq \<and> name (parent p) = name (parent q)"
  then have run: "process_all w c (ps @ [q]) st1 = (st2, None)"
    and p: "p \<in> set ps" "is_dir w (sorting_sibling p)"
    and q: "is_dir w (sorting_sibling q)" "parents1 q = Inr gq"
    and names: "name gp = name gq" "name (parent p) = name (parent q)"
    by simp_all
  show "job_file (full_name (name gp) (name (parent p)))
            = job_file (full_name (name gq) (name (parent q)))"
    by (simp add: names)
  from process_all_counter [OF run]
  show cnt: "counter st2
      = counter st1 + length (filter (\<lambda>p. is_dir w (sorting_sibling p)) (ps @ [q]))" .
  have "filter (\<lambda>p. is_dir w (sorting_sibling p)) ps \<noteq> []"
    using p by (auto simp: filter_empty_conv)
  then have "1 \<le> length (filter (\<lambda>p. is_dir w (sorting_sibling p)) ps)"
    by (cases "filter (\<lambda>p. is_dir w (sorting_sibling p)) ps") simp_all
  moreover have "counter st2
      = counter st1 + length (filter (\<lambda>p. is_dir w (sorting_sibling p)) ps) + 1"
    using cnt q(1) by simp
  ultimately show "counter st1 + 2 \<le> counter st2"
    by linarith
  from process_all_snoc [OF run] obtain sta where
    "process_one w c q sta = Inr st2" by blast
  from process_one_written [OF this q(1)] q(2)
  show "\<exists>r0 g0 r dur g.
             load_recording w q = Inr r0 \<and> load_sorting w (sorting_sibling q) = Inr g0 \<and>
             prepare c r0 g0 = Inr (r, dur, g) \<and>
             files st2 (recordings_folder @ [job_file (full_name (name gp) (name (parent p)))])
               = Some (job_json w (make_job c (name gq) (name (parent q)) r dur)) \<and>
             files st2 (flattened_folder @ [job_file (full_name (name gp) (name (parent p)))])
               = Some (job_json w (make_job c (name gq) (name (parent q)) r dur)) \<and>
             files st2 (flattened_folder @ [gt_file (full_name (name gp) (name (parent p)))])
               = Some (sorting_json w g)"
    by (auto simp: names)
qed

theorem C10_counter_counts_every_processed_pair_witness:
  "resolve_config (tree_world twin_walk) no_args = Inr default_config \<and>
   subsample (tree_world twin_walk) (MAX_RECORDINGS default_config)
       (discover (tree_world twin_walk)) (after_setup (tree_world twin_walk) default_config)
     = (after_setup (tree_world twin_walk) default_config, Inr [twin_x, twin_y]) \<and>
   snd (main (tree_world twin_walk) no_args) = None \<and>
   counter (fst (main (tree_world twin_walk) no_args)) = 2 \<and>
   last (logged (fst (main (tree_world twin_walk) no_args))) = LogGenerated 2 \<and>
   snd (process_all (tree_world twin_walk) default_config ([twin_x] @ [twin_y]) initial_state)
     = None \<and>
   twin_x \<in> set [twin_x] \<and>
   is_dir (tree_world twin_walk) (sorting_sibling twin_x) \<and>
   is_dir (tree_world twin_walk) (sorting_sibling twin_y) \<and>
   parents1 twin_x = Inr (data_folder @ [''x'', ''s1'']) \<and>
   parents1 twin_y = Inr (data_folder @ [''y'', ''s1'']) \<and>
   name (data_folder @ [''x'', ''s1'']) = name (data_folder @ [''y'', ''s1'']) \<and>
   name (parent twin_x) = name (parent twin_y) \<and>
   job_file (full_name (name (data_folder @ [''x'', ''s1''])) (name (parent twin_x)))
     = ''job_s1__c1.json'' \<and>
   job_file (full_name (name (data_folder @ [''y'', ''s1''])) (name (parent twin_y)))
     = ''job_s1__c1.json'' \<and>
   counter (fst (process_all (tree_world twin_walk) default_config ([twin_x] @ [twin_y])
                   initial_state)) = 2 \<and>
   files (fst (process_all (tree_world twin_walk) default_config ([twin_x] @ [twin_y])
                 initial_state)) (recordings_folder @ [''job_s1__c1.json''])
     = Some ''s1__c1 from ../data/y/s1/c1/recording.zarr''"
proof -
  let ?t = "tree_world twin_walk"
  let ?gx = "data_folder @ [''x'', ''s1'']" and ?gy = "data_folder @ [''y'', ''s1'']"
  let ?pa = "process_all ?t default_config ([twin_x] @ [twin_y]) initial_state"
  have c: "resolve_config ?t no_args = Inr default_config"
    by (simp add: resolve_config_def config_from_args_def no_args_def py_or_def py_float_def
        default_config_def)
  have disc: "discover ?t = [twin_x, twin_y]"
    by code_simp
  have s: "subsample ?t (MAX_RECORDINGS default_config) (discover ?t)
             (after_setup ?t default_config)
           = (after_setup ?t default_config, Inr [twin_x, twin_y])"
    by (simp add: subsample_def needs_sampling_def default_config_def disc)
  have ok: "snd (main ?t no_args) = None"
    by code_simp
  then have m: "main ?t no_args = (fst (main ?t no_args), None)"
    by (simp add: prod_eq_iff)
  have ok2: "snd ?pa = None"
    by code_simp
  then have run: "?pa = (fst ?pa, None)"
    by (simp add: prod_eq_iff)
  have mem: "twin_x \<in> set [twin_x]"
    by simp
  have dx: "is_dir ?t (sorting_sibling twin_x)" and dy: "is_dir ?t (sorting_sibling twin_y)"
    by code_simp+
  have px: "parents1 twin_x = Inr ?gx" and py: "parents1 twin_y = Inr ?gy"
    by code_simp+
  have ng: "name ?gx = name ?gy"
    by code_simp
  have np: "name (parent twin_x) = name (parent twin_y)"
    by code_simp
  have jx: "job_file (full_name (name ?gx) (name (parent twin_x))) = ''job_s1__c1.json''"
    and jy: "job_file (full_name (name ?gy) (name (parent twin_y))) = ''job_s1__c1.json''"
    by code_simp+
  have content: "files (fst ?pa) (recordings_folder @ [''job_s1__c1.json''])
                   = Some ''s1__c1 from ../data/y/s1/c1/recording.zarr''"
    by code_simp
  from C10_counter_counts_every_processed_pair
         [of ?t no_args default_config "after_setup ?t default_config" "[twin_x, twin_y]"
             "fst (main ?t no_args)" "[twin_x]" twin_y initial_state "fst ?pa" twin_x ?gx ?gy]
       c s m run mem dx dy px py ng np
  have "counter (fst (main ?t no_args)) = 2"
    and "last (logged (fst (main ?t no_args))) = LogGenerated 2"
    and "counter (fst ?pa) = 2"
    by (simp_all add: initial_state_def)
  with c s ok ok2 mem dx dy px py ng np jx jy content show ?thesis
    by simp
qed

end
